theory Spec2Isabelle
  imports
    Complex_Main
    "HOL-Library.Char_ord"
    "HOL-Library.List_Lexorder"
    "HOL-Library.Sublist"
    "HOL-Library.Multiset"
begin

section \<open>Strings as the program uses them\<close>

text \<open>
  The program is Python; its strings are sequences of code points.  Here a string is a
  \<^typ>\<open>string\<close>, a list of 8-bit characters, which is exact for ASCII text and stands
  for the UTF-8 encoding otherwise.  The classes \<open>\s\<close> and \<open>\d\<close> and the case
  mapping are the ASCII ones (Python adds further Unicode members to each of them).
\<close>

definition is_space :: "char \<Rightarrow> bool" where
  "is_space c \<longleftrightarrow>
     c \<in> set [CHR 0x09, CHR 0x0A, CHR 0x0B, CHR 0x0C, CHR 0x0D,
              CHR 0x1C, CHR 0x1D, CHR 0x1E, CHR 0x1F, CHR '' '']"

definition is_digit :: "char \<Rightarrow> bool" where
  "is_digit c \<longleftrightarrow> c \<in> set ''0123456789''"

text \<open>\<open>str.strip()\<close>: white space removed at both ends.\<close>

definition strip :: "string \<Rightarrow> string" where
  "strip s = rev (dropWhile is_space (rev (dropWhile is_space s)))"

text \<open>\<open>str.lower()\<close> on ASCII letters.\<close>

definition lower_char :: "char \<Rightarrow> char" where
  "lower_char c =
     (case map_of (zip ''ABCDEFGHIJKLMNOPQRSTUVWXYZ'' ''abcdefghijklmnopqrstuvwxyz'') c of
        Some d \<Rightarrow> d
      | None \<Rightarrow> c)"

definition lower :: "string \<Rightarrow> string" where
  "lower s = map lower_char s"

text \<open>\<open>sep.join(parts)\<close>.\<close>

fun join :: "string \<Rightarrow> string list \<Rightarrow> string" where
  "join sep [] = []"
| "join sep [p] = p"
| "join sep (p # q # ps) = p @ sep @ join sep (q # ps)"

section \<open>Shortening a version string\<close>

text \<open>
  \<^verbatim>\<open>m = re.search(r'(\d+\.\d+\.\d+)', esxi)\<close>

  \<open>match_version\<close> is the pattern tried at the start of a string.  Each \<open>\d+\<close> is
  greedy; giving back a digit never helps, because the next thing the pattern wants is a
  dot (or nothing), so the only match at a position takes every maximal run of digits.
  \<open>re_search_version\<close> tries the positions from left to right, as \<open>re.search\<close> does.
\<close>

definition match_version :: "string \<Rightarrow> string option" where
  "match_version s =
     (let d1 = takeWhile is_digit s; r1 = dropWhile is_digit s in
      if d1 = [] then None
      else case r1 of
        [] \<Rightarrow> None
      | c1 # s2 \<Rightarrow>
          if c1 \<noteq> CHR ''.'' then None
          else
            (let d2 = takeWhile is_digit s2; r2 = dropWhile is_digit s2 in
             if d2 = [] then None
             else case r2 of
               [] \<Rightarrow> None
             | c2 # s3 \<Rightarrow>
                 if c2 \<noteq> CHR ''.'' then None
                 else
                   (let d3 = takeWhile is_digit s3 in
                    if d3 = [] then None
                    else Some (d1 @ ''.'' @ d2 @ ''.'' @ d3))))"

fun re_search_version :: "string \<Rightarrow> string option" where
  "re_search_version [] = None"
| "re_search_version (c # cs) =
     (case match_version (c # cs) of
        Some m \<Rightarrow> Some m
      | None \<Rightarrow> re_search_version cs)"

text \<open>
  Lines 264-268 of \<open>parse_rvtools\<close>:
  \<^verbatim>\<open>esxi_short = esxi; m = re.search(...); if m: esxi_short = m.group(1)\<close>
\<close>

definition shorten_version :: "string \<Rightarrow> string" where
  "shorten_version esxi =
     (case re_search_version esxi of Some m \<Rightarrow> m | None \<Rightarrow> esxi)"

section \<open>Ordered dictionaries\<close>

text \<open>
  A Python \<open>dict\<close> keeps its keys in the order of their first insertion.  It is an
  association list here: \<open>d[k] = v\<close> replaces the value of a key that is present, in
  place, and appends a key that is new; \<open>d.items()\<close> is the list itself, \<open>k in d\<close>
  and \<open>d[k]\<close> are \<^const>\<open>map_of\<close>.
\<close>

type_synonym ('k, 'v) pydict = "('k \<times> 'v) list"

fun dict_set :: "'k \<Rightarrow> 'v \<Rightarrow> ('k, 'v) pydict \<Rightarrow> ('k, 'v) pydict" where
  "dict_set k v [] = [(k, v)]"
| "dict_set k v ((k', v') # d) =
     (if k' = k then (k, v) # d else (k', v') # dict_set k v d)"

section \<open>Compatibility lookup\<close>

text \<open>
  \<^verbatim>\<open>_VENDOR_PREFIX_RE = re.compile(
      r'^(Dell\s+(Inc\.?\s*)?|HPE?\s+|Lenovo\s+|Cisco\s+|Fujitsu\s+)', re.I)\<close>

  \<open>word_spaces w s\<close> is a word (given in lower case, compared without regard to case)
  followed by \<open>\s+\<close> at the start of \<open>s\<close>; it returns what follows the white space.
  The alternatives are tried in the order of the pattern, \<open>HPE?\<close> first with its
  \<open>E\<close> and then without.  After \<open>Dell\s+\<close> the optional group takes \<open>Inc\<close>, then
  a dot if there is one, then all white space.
\<close>

definition starts_with_ci :: "string \<Rightarrow> string \<Rightarrow> bool" where
  "starts_with_ci w s \<longleftrightarrow> lower (take (length w) s) = w"

definition word_spaces :: "string \<Rightarrow> string \<Rightarrow> string option" where
  "word_spaces w s =
     (if starts_with_ci w s then
        (case drop (length w) s of
           [] \<Rightarrow> None
         | c # r \<Rightarrow> if is_space c then Some (dropWhile is_space r) else None)
      else None)"

definition inc_group :: "string \<Rightarrow> string" where
  "inc_group r =
     (if starts_with_ci ''inc'' r then
        (case drop 3 r of
           [] \<Rightarrow> []
         | c # t \<Rightarrow> dropWhile is_space (if c = CHR ''.'' then t else c # t))
      else r)"

definition vendor_prefix_rest :: "string \<Rightarrow> string option" where
  "vendor_prefix_rest s =
     (case word_spaces ''dell'' s of
        Some r \<Rightarrow> Some (inc_group r)
      | None \<Rightarrow>
     (case word_spaces ''hpe'' s of
        Some r \<Rightarrow> Some r
      | None \<Rightarrow>
     (case word_spaces ''hp'' s of
        Some r \<Rightarrow> Some r
      | None \<Rightarrow>
     (case word_spaces ''lenovo'' s of
        Some r \<Rightarrow> Some r
      | None \<Rightarrow>
     (case word_spaces ''cisco'' s of
        Some r \<Rightarrow> Some r
      | None \<Rightarrow> word_spaces ''fujitsu'' s)))))"

text \<open>\<^verbatim>\<open>return _VENDOR_PREFIX_RE.sub('', model).strip()\<close>\<close>

definition normalize_model :: "string \<Rightarrow> string" where
  "normalize_model model =
     strip (case vendor_prefix_rest model of Some r \<Rightarrow> r | None \<Rightarrow> model)"

text \<open>\<open>s.replace(old, new)\<close>: the occurrences of \<open>old\<close> from left to right, without
  overlap.\<close>

fun replace :: "string \<Rightarrow> string \<Rightarrow> string \<Rightarrow> string" where
  "replace [] new s = new @ concat (map (\<lambda>c. c # new) s)"
| "replace (a # old) new [] = []"
| "replace (a # old) new (c # cs) =
     (if prefix (a # old) (c # cs)
      then new @ replace (a # old) new (drop (length old) cs)
      else c # replace (a # old) new cs)"

text \<open>The fixed marks of the labels: \<open>U+2705\<close>, \<open>U+26A0 U+FE0F\<close>, \<open>U+274C\<close> and
  \<open>U+2014\<close>, written as their UTF-8 bytes.\<close>

definition check_mark :: string where
  "check_mark = [CHR 0xE2, CHR 0x9C, CHR 0x85]"

definition warning_sign :: string where
  "warning_sign = [CHR 0xE2, CHR 0x9A, CHR 0xA0, CHR 0xEF, CHR 0xB8, CHR 0x8F]"

definition cross_mark :: string where
  "cross_mark = [CHR 0xE2, CHR 0x9D, CHR 0x8C]"

definition em_dash :: string where
  "em_dash = [CHR 0xE2, CHR 0x80, CHR 0x94]"

text \<open>
  \<^verbatim>\<open>versions = sorted(r.replace('ESXi ', '') for r in releases)
  return '<U+2705> VCF ' + ' + '.join(versions) + ' Ready'\<close>
\<close>

definition vcf9_label :: "string list \<Rightarrow> string" where
  "vcf9_label releases =
     (let versions = sort (map (replace ''ESXi '' []) releases)
      in check_mark @ '' VCF '' @ join '' + '' versions @ '' Ready'')"

record verdict =
  status :: string
  label :: string

text \<open>\<^verbatim>\<open>{entry['m'].strip().lower(): entry['r'] for entry in hcl_data}\<close>\<close>

definition build_vcf9_lookup ::
  "(string \<times> string list) list \<Rightarrow> (string, string list) pydict" where
  "build_vcf9_lookup hcl_data =
     foldl (\<lambda>d (m, r). dict_set (lower (strip m)) r d) [] hcl_data"

text \<open>The \<open>for\<close> loop of \<open>check_vcf9_compat\<close>: the first entry, in the order of the
  dictionary, that contains the model or is contained in it.\<close>

fun first_containing ::
  "string \<Rightarrow> (string, string list) pydict \<Rightarrow> string list option" where
  "first_containing nm [] = None"
| "first_containing nm ((hcl_model, releases) # rest) =
     (if sublist nm hcl_model \<or> sublist hcl_model nm then Some releases
      else first_containing nm rest)"

definition check_vcf9_compat ::
  "string \<Rightarrow> (string, string list) pydict \<Rightarrow> verdict" where
  "check_vcf9_compat model lookup =
     (if model = [] then
        \<lparr>status = ''unknown'', label = warning_sign @ '' VCF9 ?''\<rparr>
      else
        (let nm = lower (normalize_model model) in
         case map_of lookup nm of
           Some releases \<Rightarrow> \<lparr>status = ''compatible'', label = vcf9_label releases\<rparr>
         | None \<Rightarrow>
             (case first_containing nm lookup of
                Some releases \<Rightarrow> \<lparr>status = ''compatible'', label = vcf9_label releases\<rparr>
              | None \<Rightarrow>
                  \<lparr>status = ''incompatible'', label = cross_mark @ '' Not VCF9 Ready''\<rparr>)))"


section \<open>Numbers as text\<close>

text \<open>\<open>str(n)\<close> of an integer, \<open>s.isdigit()\<close> and \<open>int(s)\<close> of a string of digits.\<close>

definition digit_char :: "nat \<Rightarrow> char" where
  "digit_char n = ''0123456789'' ! (n mod 10)"

function str_nat :: "nat \<Rightarrow> string" where
  "str_nat n = (if n < 10 then [digit_char n] else str_nat (n div 10) @ [digit_char n])"
  by pat_completeness auto
termination
  by (relation "measure (\<lambda>n. n)") auto

declare str_nat.simps [simp del]

definition str_int :: "int \<Rightarrow> string" where
  "str_int i = (if i < 0 then CHR ''-'' # str_nat (nat (- i)) else str_nat (nat i))"




section \<open>The float built-ins\<close>







section \<open>Workbooks\<close>





text \<open>\<^verbatim>\<open>{c.lower(): c for c in names}\<close>\<close>

definition lower_index :: "string list \<Rightarrow> (string, string) pydict" where
  "lower_index names = foldl (\<lambda>d c. dict_set (lower c) c d) [] names"






section \<open>Hosts and sites\<close>

record host =
  hostname :: string
  cluster :: string
  model :: string
  esxi :: string
  vms :: string
  cpu :: string
  mem :: string
  svc :: string
  sockets :: int
  cores_per_socket :: int
  vcf9 :: "verdict option"

record site =
  site_name :: string
  clusters :: "(string, host list) pydict"
  vcenter_version :: string
  total_hosts :: int
  total_vms :: int





section \<open>The RVTools parser\<close>










section \<open>The LiveOptics parser\<close>







section \<open>Choosing the parser\<close>

definition dquote :: char where
  "dquote = CHR 0x22"


section \<open>What the parsers are measured against\<close>









section \<open>The licensing calculator\<close>

text \<open>
  The entitlement is a Python float.  It is a rational number here: the products with
  \<open>1.0\<close> and \<open>0.25\<close> and their sums are exact in binary floating point as long as
  the core counts stay below \<open>2^51\<close>, so the two agree on every inventory of that size.
\<close>

record license_line =
  l_site :: string
  l_cluster :: string
  l_hostname :: string
  l_sockets :: int
  l_cores_per_socket :: int
  foundation_cores :: int
  entitled_tib :: rat
  missing :: bool

record license_report =
  l_rows :: "license_line list"
  total_cores :: int
  total_tib :: rat
  missing_count :: int
  deployment_type :: string
  tib_per_core :: rat

text \<open>The body of the innermost loop of \<open>calculate_licensing\<close> (lines 435-469), on the
  report under construction.\<close>

definition license_host ::
  "rat \<Rightarrow> string \<Rightarrow> string \<Rightarrow> license_report \<Rightarrow> host \<Rightarrow> license_report" where
  "license_host tib site_name_v cluster_name acc h =
     (if sockets h = 0 \<or> cores_per_socket h = 0 then
        acc\<lparr>missing_count := missing_count acc + 1,
            l_rows := l_rows acc @
              [\<lparr>l_site = site_name_v, l_cluster = cluster_name, l_hostname = hostname h,
                l_sockets = sockets h, l_cores_per_socket = cores_per_socket h,
                foundation_cores = 0, entitled_tib = 0, missing = True\<rparr>]\<rparr>
      else
        (let effective_cores = max (cores_per_socket h) 16;
             foundation_cores_v = sockets h * effective_cores;
             entitled_tib_v = of_int foundation_cores_v * tib
         in
         acc\<lparr>total_cores := total_cores acc + foundation_cores_v,
             total_tib := total_tib acc + entitled_tib_v,
             l_rows := l_rows acc @
               [\<lparr>l_site = site_name_v, l_cluster = cluster_name, l_hostname = hostname h,
                 l_sockets = sockets h, l_cores_per_socket = cores_per_socket h,
                 foundation_cores = foundation_cores_v, entitled_tib = entitled_tib_v,
                 missing = False\<rparr>]\<rparr>))"

definition license_site :: "rat \<Rightarrow> license_report \<Rightarrow> site \<Rightarrow> license_report" where
  "license_site tib acc s =
     foldl (\<lambda>acc1 (cluster_name, hosts). foldl (license_host tib (site_name s) cluster_name) acc1 hosts)
       acc (clusters s)"

definition calculate_licensing :: "site list \<Rightarrow> string \<Rightarrow> license_report" where
  "calculate_licensing sites deployment_type_v =
     (let tib = (if deployment_type_v = ''VCF'' then 1 else 1 / 4) in
      foldl (license_site tib)
        \<lparr>l_rows = [], total_cores = 0, total_tib = 0, missing_count = 0,
         deployment_type = deployment_type_v, tib_per_core = tib\<rparr>
        sites)"




section \<open>The readiness report\<close>

record vcf9_row =
  r_site :: string
  r_cluster :: string
  r_hostname :: string
  r_model :: string
  r_esxi :: string
  r_status :: string
  r_label :: string

record vcf9_report =
  v_rows :: "vcf9_row list"
  compatible :: int
  incompatible :: int
  unknown :: int
  total :: int

definition vcf9_host :: "string \<Rightarrow> string \<Rightarrow> vcf9_report \<Rightarrow> host \<Rightarrow> vcf9_report" where
  "vcf9_host site_name_v cluster_name acc h =
     (let v = (case vcf9 h of Some v \<Rightarrow> v | None \<Rightarrow> \<lparr>status = ''unknown'', label = ''N/A''\<rparr>);
          acc1 = acc\<lparr>v_rows := v_rows acc @
                   [\<lparr>r_site = site_name_v, r_cluster = cluster_name, r_hostname = hostname h,
                     r_model = model h, r_esxi = esxi h, r_status = status v,
                     r_label = label v\<rparr>]\<rparr>
      in
      if status v = ''compatible'' then acc1\<lparr>compatible := compatible acc1 + 1\<rparr>
      else if status v = ''incompatible'' then acc1\<lparr>incompatible := incompatible acc1 + 1\<rparr>
      else acc1\<lparr>unknown := unknown acc1 + 1\<rparr>)"

definition build_vcf9_report :: "site list \<Rightarrow> vcf9_report" where
  "build_vcf9_report sites =
     (let acc =
        foldl (\<lambda>acc0 s.
                 foldl (\<lambda>acc1 (cluster_name, hosts). foldl (vcf9_host (site_name s) cluster_name) acc1 hosts)
                   acc0 (clusters s))
          \<lparr>v_rows = [], compatible = 0, incompatible = 0, unknown = 0, total = 0\<rparr>
          sites
      in acc\<lparr>total := int (length (v_rows acc))\<rparr>)"

section \<open>The CSV formatters\<close>

definition newline :: string where
  "newline = [CHR 0x0A]"

text \<open>\<^verbatim>\<open>f'"{v}"'\<close>\<close>

definition quoted :: "string \<Rightarrow> string" where
  "quoted v = dquote # v @ [dquote]"










text \<open>
  A reader of the data rows, for stating what the quoting preserves.  The program has no
  reader of its own; this one is the usual one for fully quoted rows, character by
  character: a field is opened and closed by a double quote, and a closed field is
  followed by a comma and the next field or by the end of the row.
\<close>

datatype reader_state = Opening | Inside string | Closed

fun read_row :: "reader_state \<Rightarrow> string \<Rightarrow> string list option" where
  "read_row Opening [] = None"
| "read_row Opening (c # cs) = (if c = dquote then read_row (Inside []) cs else None)"
| "read_row (Inside v) [] = None"
| "read_row (Inside v) (c # cs) =
     (if c = dquote then
        (case read_row Closed cs of None \<Rightarrow> None | Some vs \<Rightarrow> Some (rev v # vs))
      else read_row (Inside (c # v)) cs)"
| "read_row Closed [] = Some []"
| "read_row Closed (c # cs) = (if c = CHR '','' then read_row Opening cs else None)"

definition read_quoted_row :: "string \<Rightarrow> string list option" where
  "read_quoted_row s = read_row Opening s"


text \<open>All of a list of options, or nothing.\<close>

fun those_rows :: "'a option list \<Rightarrow> 'a list option" where
  "those_rows [] = Some []"
| "those_rows (None # _) = None"
| "those_rows (Some a # rest) =
     (case those_rows rest of None \<Rightarrow> None | Some as \<Rightarrow> Some (a # as))"



section \<open>The diagram\<close>

subsection \<open>Constants\<close>

record palette =
  zone_bg :: string
  zone_stroke :: string
  hdr_bg :: string
  hdr_text :: string
  cluster_bg :: string
  cluster_stroke :: string
  host_bg :: string
  host_stroke :: string
  host_text :: string

definition PALETTES :: "palette list" where
  "PALETTES =
     [\<lparr>zone_bg = ''#E3F5F4'', zone_stroke = ''#2DC4B8'', hdr_bg = ''#2DC4B8'',
       hdr_text = ''#FFFFFF'', cluster_bg = ''#EAF8F7'', cluster_stroke = ''#2DC4B8'',
       host_bg = ''#FFFFFF'', host_stroke = ''#7DD4CE'', host_text = ''#0D4A45''\<rparr>,
      \<lparr>zone_bg = ''#E8F0FB'', zone_stroke = ''#1A5DAD'', hdr_bg = ''#1A5DAD'',
       hdr_text = ''#FFFFFF'', cluster_bg = ''#EDF3FD'', cluster_stroke = ''#1A5DAD'',
       host_bg = ''#FFFFFF'', host_stroke = ''#5B9BD5'', host_text = ''#0D3B78''\<rparr>,
      \<lparr>zone_bg = ''#E8F5EE'', zone_stroke = ''#1E8449'', hdr_bg = ''#1E8449'',
       hdr_text = ''#FFFFFF'', cluster_bg = ''#EDF7F1'', cluster_stroke = ''#1E8449'',
       host_bg = ''#FFFFFF'', host_stroke = ''#52BE80'', host_text = ''#145A32''\<rparr>,
      \<lparr>zone_bg = ''#EDE8F7'', zone_stroke = ''#5B3DAB'', hdr_bg = ''#5B3DAB'',
       hdr_text = ''#FFFFFF'', cluster_bg = ''#F3F0FB'', cluster_stroke = ''#5B3DAB'',
       host_bg = ''#FFFFFF'', host_stroke = ''#9B7DD4'', host_text = ''#3D2580''\<rparr>,
      \<lparr>zone_bg = ''#EAF0F0'', zone_stroke = ''#2E7D8C'', hdr_bg = ''#2E7D8C'',
       hdr_text = ''#FFFFFF'', cluster_bg = ''#EEF4F5'', cluster_stroke = ''#2E7D8C'',
       host_bg = ''#FFFFFF'', host_stroke = ''#6BB8C4'', host_text = ''#1A4D56''\<rparr>,
      \<lparr>zone_bg = ''#FAE8E8'', zone_stroke = ''#C0392B'', hdr_bg = ''#C0392B'',
       hdr_text = ''#FFFFFF'', cluster_bg = ''#FDF0F0'', cluster_stroke = ''#C0392B'',
       host_bg = ''#FFFFFF'', host_stroke = ''#E57373'', host_text = ''#7B241C''\<rparr>]"

definition ZONE_W :: int where "ZONE_W = 780"
definition COLS :: int where "COLS = 3"
definition HOST_W :: int where "HOST_W = 230"
definition HOST_H :: int where "HOST_H = 120"
definition CLUSTER_H :: int where "CLUSTER_H = 28"
definition HEADER_H :: int where "HEADER_H = 65"
definition PAD :: int where "PAD = 12"
definition COL_GAP :: int where "COL_GAP = 10"
definition ROW_GAP :: int where "ROW_GAP = 8"
definition ZONE_GAP :: int where "ZONE_GAP = 30"
definition CANVAS_X :: int where "CANVAS_X = 60"
definition CANVAS_Y :: int where "CANVAS_Y = 60"

subsection \<open>Elements\<close>

text \<open>
  An element of the document is a dictionary.  The record has the keys whose values vary
  from one element to another; the other keys (\<open>angle\<close>, \<open>fillStyle\<close>, \<open>opacity\<close>, ...)
  have the same value in every element, and \<open>seed\<close> is a hash of the identifier.  The
  keys that only a text element has are in \<open>text_part\<close>.

  \<open>uid()\<close> is a random UUID.  Here the identifiers are drawn from a counter that is
  passed along, so that each call gives a new one.
\<close>

record text_attrs =
  t_text :: string
  fontSize :: int
  fontFamily :: int
  verticalAlign :: string
  containerId :: nat

record element =
  el_id :: nat
  el_type :: string
  el_x :: int
  el_y :: int
  el_width :: int
  el_height :: int
  strokeColor :: string
  backgroundColor :: string
  roundness :: "int option"
  boundElements :: "nat list"
  text_part :: "text_attrs option"

definition uid :: "nat \<Rightarrow> nat \<times> nat" where
  "uid n = (n, Suc n)"

text \<open>\<open>rect(id_, x, y, w, h, bg, stroke, text, font_size, bold, text_color, v_align,
  rounded)\<close>: the rectangle and, when \<open>text\<close> is not empty, the text bound to it.\<close>

definition rect ::
  "nat \<Rightarrow> int \<Rightarrow> int \<Rightarrow> int \<Rightarrow> int \<Rightarrow> string \<Rightarrow> string \<Rightarrow> string \<Rightarrow> int \<Rightarrow> bool
     \<Rightarrow> string \<Rightarrow> string \<Rightarrow> int \<Rightarrow> nat \<Rightarrow> element list \<times> nat" where
  "rect rid x y w h bg stroke txt font_size bold text_color v_align rounded n =
     (let el = \<lparr>el_id = rid, el_type = ''rectangle'', el_x = x, el_y = y,
                el_width = w, el_height = h, strokeColor = stroke, backgroundColor = bg,
                roundness = Some rounded, boundElements = [], text_part = None\<rparr>
      in
      if txt \<noteq> [] then
        (let (txt_id, n1) = uid n;
             t = \<lparr>el_id = txt_id, el_type = ''text'', el_x = x, el_y = y,
                  el_width = w, el_height = h, strokeColor = text_color,
                  backgroundColor = ''transparent'', roundness = None, boundElements = [],
                  text_part = Some
                    \<lparr>t_text = txt,
                     fontSize = (if bold then font_size + 1 else font_size),
                     fontFamily = (if bold then 1 else 3),
                     verticalAlign = v_align,
                     containerId = rid\<rparr>\<rparr>
         in ([el\<lparr>boundElements := [txt_id]\<rparr>, t], n1))
      else ([el], n))"

subsection \<open>Hosts of a cluster\<close>

definition middle_dot :: string where
  "middle_dot = [CHR 0xC2, CHR 0xB7]"

text \<open>The label of a host box (lines 706-715).\<close>

definition host_label :: "bool \<Rightarrow> host \<Rightarrow> string" where
  "host_label vcf9_enabled h =
     join newline
       ([hostname h,
         (if model h \<noteq> [] then model h else em_dash),
         (if svc h \<noteq> [] then ''SVC: '' @ svc h else ''SVC: '' @ em_dash),
         (if esxi h \<noteq> [] then ''ESXi '' @ esxi h else ''ESXi '' @ em_dash),
         ''VMs:'' @ vms h @ ''  CPU:'' @ cpu h @ ''  Mem:'' @ mem h]
        @ (case vcf9 h of
             Some v \<Rightarrow> if vcf9_enabled then [label v] else []
           | None \<Rightarrow> []))"

definition host_stroke_of :: "palette \<Rightarrow> bool \<Rightarrow> host \<Rightarrow> string" where
  "host_stroke_of p vcf9_enabled h =
     (case vcf9 h of
        Some v \<Rightarrow>
          if vcf9_enabled \<and> status v = ''incompatible'' then ''#E57373'' else host_stroke p
      | None \<Rightarrow> host_stroke p)"

text \<open>\<^verbatim>\<open>for i, h in enumerate(chosts): ...\<close> (lines 699-727), from index \<open>i\<close> on.\<close>

fun host_boxes ::
  "palette \<Rightarrow> bool \<Rightarrow> int \<Rightarrow> int \<Rightarrow> int \<Rightarrow> nat \<Rightarrow> host list \<Rightarrow> nat \<Rightarrow> element list \<times> nat" where
  "host_boxes p vcf9_enabled x_cursor cy host_h i [] n = ([], n)"
| "host_boxes p vcf9_enabled x_cursor cy host_h i (h # hs) n =
     (let col_i = int i mod COLS;
          row_i = int i div COLS;
          hx = x_cursor + PAD + col_i * (HOST_W + COL_GAP);
          hy = cy + row_i * (host_h + ROW_GAP);
          (h_id, n1) = uid n;
          (h_els, n2) = rect h_id hx hy HOST_W host_h (host_bg p)
                          (host_stroke_of p vcf9_enabled h) (host_label vcf9_enabled h)
                          9 False (host_text p) ''middle'' 6 n1;
          (rest_els, n3) = host_boxes p vcf9_enabled x_cursor cy host_h (Suc i) hs n2
      in (h_els @ rest_els, n3))"

subsection \<open>Clusters of a site\<close>

text \<open>\<^verbatim>\<open>rows = (len(chosts) + COLS - 1) // COLS\<close>\<close>

definition host_rows :: "host list \<Rightarrow> int" where
  "host_rows chosts = (int (length chosts) + COLS - 1) div COLS"

text \<open>\<^verbatim>\<open>for cname, chosts in clusters.items(): ...\<close> (lines 687-729), from the vertical
  position \<open>cy\<close> on.\<close>

fun cluster_boxes ::
  "palette \<Rightarrow> bool \<Rightarrow> int \<Rightarrow> int \<Rightarrow> int \<Rightarrow> (string, host list) pydict \<Rightarrow> nat
     \<Rightarrow> element list \<times> nat" where
  "cluster_boxes p vcf9_enabled x_cursor host_h cy [] n = ([], n)"
| "cluster_boxes p vcf9_enabled x_cursor host_h cy ((cname, chosts) # rest) n =
     (let (c_id, n1) = uid n;
          (c_els, n2) = rect c_id (x_cursor + PAD) cy (ZONE_W - 2 * PAD) CLUSTER_H
                          (cluster_bg p) (cluster_stroke p) cname
                          11 True (zone_stroke p) ''middle'' 4 n1;
          cy1 = cy + CLUSTER_H + PAD;
          (h_els, n3) = host_boxes p vcf9_enabled x_cursor cy1 host_h 0 chosts n2;
          cy2 = cy1 + host_rows chosts * (host_h + ROW_GAP) + PAD;
          (rest_els, n4) = cluster_boxes p vcf9_enabled x_cursor host_h cy2 rest n3
      in (c_els @ h_els @ rest_els, n4))"

text \<open>The height of a zone (lines 660-664).\<close>

definition zone_height :: "int \<Rightarrow> (string, host list) pydict \<Rightarrow> int" where
  "zone_height host_h cl =
     foldl (\<lambda>zone_inner_y (cname, chosts).
              zone_inner_y + CLUSTER_H + PAD + host_rows chosts * (host_h + ROW_GAP))
       (HEADER_H + PAD) cl
     + PAD"

subsection \<open>Sites\<close>

text \<open>The body of the loop over the sites (lines 652-729).\<close>

definition site_elements ::
  "bool \<Rightarrow> int \<Rightarrow> nat \<Rightarrow> int \<Rightarrow> site \<Rightarrow> nat \<Rightarrow> element list \<times> nat" where
  "site_elements vcf9_enabled host_h idx x_cursor s n =
     (let p = PALETTES ! (idx mod length PALETTES);
          zone_h = zone_height host_h (clusters s);
          (zone_id, n1) = uid n;
          y0 = CANVAS_Y;
          (zone_els, n2) = rect zone_id x_cursor y0 ZONE_W zone_h (zone_bg p) (zone_stroke p)
                             [] 12 False ''#1C2E44'' ''middle'' 12 n1;
          hdr_text_v = site_name s @ ''  '' @ middle_dot @ ''  '' @ str_int (total_hosts s)
                         @ '' hosts  '' @ middle_dot @ ''  '' @ str_int (total_vms s) @ '' VMs''
                         @ (if vcenter_version s \<noteq> []
                            then newline @ ''vCenter '' @ vcenter_version s else []);
          (hdr_id, n3) = uid n2;
          (hdr_els, n4) = rect hdr_id x_cursor y0 ZONE_W HEADER_H (hdr_bg p) (hdr_bg p)
                            hdr_text_v 14 True (hdr_text p) ''middle'' 10 n3;
          cy = y0 + HEADER_H + PAD;
          (cl_els, n5) = cluster_boxes p vcf9_enabled x_cursor host_h cy (clusters s) n4
      in (zone_els @ hdr_els @ cl_els, n5))"

text \<open>\<^verbatim>\<open>for idx, site in enumerate(sites): ...; x_cursor += ZONE_W + ZONE_GAP\<close>.  The
  result has the horizontal position after the last site as well.\<close>

fun site_loop ::
  "bool \<Rightarrow> int \<Rightarrow> nat \<Rightarrow> int \<Rightarrow> site list \<Rightarrow> nat \<Rightarrow> element list \<times> int \<times> nat" where
  "site_loop vcf9_enabled host_h idx x_cursor [] n = ([], x_cursor, n)"
| "site_loop vcf9_enabled host_h idx x_cursor (s # sites) n =
     (let (s_els, n1) = site_elements vcf9_enabled host_h idx x_cursor s n;
          (rest_els, x_end, n2) =
             site_loop vcf9_enabled host_h (Suc idx) (x_cursor + ZONE_W + ZONE_GAP) sites n1
      in (s_els @ rest_els, x_end, n2))"

definition legend_text :: string where
  "legend_text =
     ''VCF 9 Compatibility'' @ newline @ check_mark @ '' VCF x.x Ready'' @ newline
       @ cross_mark @ '' Not VCF9 Ready'' @ newline
       @ warning_sign @ '' VCF9 ? '' @ em_dash @ '' model unknown''"

record document =
  doc_type :: string
  doc_version :: int
  doc_source :: string
  elements :: "element list"
  viewBackgroundColor :: string

text \<open>\<open>generate_excalidraw(sites, vcf9_enabled)\<close>, up to the document that
  \<open>json.dumps\<close> then writes out.\<close>

definition generate_excalidraw :: "site list \<Rightarrow> bool \<Rightarrow> document" where
  "generate_excalidraw sites vcf9_enabled =
     (let host_h = (if vcf9_enabled then 140 else HOST_H);
          (els, x_cursor, n) = site_loop vcf9_enabled host_h 0 CANVAS_X sites 0;
          legend_els =
            (if vcf9_enabled then
               (let (l_id, n1) = uid n in
                fst (rect l_id x_cursor CANVAS_Y 220 90 ''#FFF9E6'' ''#D4A017'' legend_text
                       9 False ''#4A4A00'' ''middle'' 8 n1))
             else [])
      in \<lparr>doc_type = ''excalidraw'', doc_version = 2, doc_source = ''https://excalidraw.com'',
          elements = els @ legend_els, viewBackgroundColor = ''#F4F5F7''\<rparr>)"

text \<open>The boxes of a document by what they show.  Each kind of box is drawn with its
  own corner radius: \<open>12\<close> a zone, \<open>10\<close> a site header, \<open>4\<close> a cluster label, \<open>6\<close> a
  host, \<open>8\<close> the legend.\<close>

definition is_box :: "int \<Rightarrow> element \<Rightarrow> bool" where
  "is_box r e \<longleftrightarrow> el_type e = ''rectangle'' \<and> roundness e = Some r"

definition zone_boxes :: "element list \<Rightarrow> element list" where
  "zone_boxes es = filter (is_box 12) es"

definition cluster_labels :: "element list \<Rightarrow> element list" where
  "cluster_labels es = filter (is_box 4) es"

definition host_rects :: "element list \<Rightarrow> element list" where
  "host_rects es = filter (is_box 6) es"

text \<open>Two boxes overlap when their interiors meet.\<close>

definition overlap :: "element \<Rightarrow> element \<Rightarrow> bool" where
  "overlap a b \<longleftrightarrow>
     el_x a < el_x b + el_width b \<and> el_x b < el_x a + el_width a
     \<and> el_y a < el_y b + el_height b \<and> el_y b < el_y a + el_height a"

section \<open>Properties of the version shortening\<close>

text \<open>A non-empty run of digits.\<close>

definition digit_run :: "string \<Rightarrow> bool" where
  "digit_run d \<longleftrightarrow> d \<noteq> [] \<and> (\<forall>c \<in> set d. is_digit c)"

lemma dot_not_digit: "\<not> is_digit CHR ''.''"
  by (simp add: is_digit_def)

lemma takeWhile_run_dot:
  "digit_run d \<Longrightarrow> takeWhile is_digit (d @ CHR ''.'' # r) = d"
  by (simp add: digit_run_def takeWhile_append2 dot_not_digit)

lemma dropWhile_run_dot:
  "digit_run d \<Longrightarrow> dropWhile is_digit (d @ CHR ''.'' # r) = CHR ''.'' # r"
  by (simp add: digit_run_def dropWhile_append2 dot_not_digit)

lemma match_version_at_pattern:
  assumes "digit_run d1" "digit_run d2" "digit_run d3"
  shows "match_version (d1 @ ''.'' @ d2 @ ''.'' @ d3 @ post)
           = Some (d1 @ ''.'' @ d2 @ ''.'' @ d3 @ takeWhile is_digit post)"
proof -
  have t3: "takeWhile is_digit (d3 @ post) = d3 @ takeWhile is_digit post"
    using assms(3) by (simp add: digit_run_def takeWhile_append2)
  have n1: "d1 \<noteq> []" and n2: "d2 \<noteq> []" and n3: "d3 \<noteq> []"
    using assms by (simp_all add: digit_run_def)
  show ?thesis
    using n1 n2 n3
    by (simp add: match_version_def Let_def takeWhile_run_dot [OF assms(1)]
        dropWhile_run_dot [OF assms(1)] takeWhile_run_dot [OF assms(2)]
        dropWhile_run_dot [OF assms(2)] t3)
qed



lemma re_search_version_finds:
  assumes "digit_run d1" "digit_run d2" "digit_run d3"
  shows "re_search_version (pre @ d1 @ CHR ''.'' # d2 @ CHR ''.'' # d3 @ post) \<noteq> None"
proof (induction pre)
  case Nil
  from assms(1) obtain c cs where d1: "d1 = c # cs"
    by (cases d1) (auto simp: digit_run_def)
  have "match_version (d1 @ CHR ''.'' # d2 @ CHR ''.'' # d3 @ post) \<noteq> None"
    using match_version_at_pattern [OF assms, of post] by simp
  then show ?case
    by (auto simp: d1 split: option.splits)
next
  case (Cons a pre)
  then show ?case
    by (auto split: option.splits)
qed




text \<open>The usual case: the version inside a longer text.\<close>

lemma shorten_version_example:
  "shorten_version ''VMware ESXi 8.0.3 build-24022510'' = ''8.0.3''"
  by (simp add: shorten_version_def match_version_def is_digit_def)

section \<open>Properties of the compatibility lookup\<close>

text \<open>
  C3.  For every model string and every table the check returns one of the three
  statuses \<open>compatible\<close>, \<open>incompatible\<close>, \<open>unknown\<close>; for the empty model it
  returns \<open>unknown\<close> with one fixed label, whatever the table, and that label is the one
  the legend of the diagram explains as "model unknown".
\<close>

theorem check_vcf9_compat_total:
  "status (check_vcf9_compat m lookup) \<in> {''compatible'', ''incompatible'', ''unknown''}
   \<and> check_vcf9_compat [] lookup = \<lparr>status = ''unknown'', label = warning_sign @ '' VCF9 ?''\<rparr>
   \<and> suffix (label (check_vcf9_compat [] lookup) @ '' '' @ em_dash @ '' model unknown'')
         legend_text"
proof (intro conjI)
  show "status (check_vcf9_compat m lookup) \<in> {''compatible'', ''incompatible'', ''unknown''}"
    by (simp add: check_vcf9_compat_def Let_def split: option.splits)
  show "check_vcf9_compat [] lookup = \<lparr>status = ''unknown'', label = warning_sign @ '' VCF9 ?''\<rparr>"
    by (simp add: check_vcf9_compat_def)
  show "suffix (label (check_vcf9_compat [] lookup) @ '' '' @ em_dash @ '' model unknown'')
         legend_text"
    by (simp add: check_vcf9_compat_def legend_text_def suffix_def)
qed

text \<open>
  C10.  The status is \<open>unknown\<close> exactly when the model string is empty; a model that is
  not empty is found \<open>compatible\<close> or \<open>incompatible\<close>, whatever the table.
\<close>

theorem check_vcf9_compat_unknown_iff:
  "(status (check_vcf9_compat m lookup) = ''unknown'' \<longleftrightarrow> m = [])
   \<and> (m \<noteq> [] \<longrightarrow>
        status (check_vcf9_compat m lookup) \<in> {''compatible'', ''incompatible''})"
  by (simp add: check_vcf9_compat_def Let_def split: option.splits)

text \<open>A model that the empty table does not know, and one that a table knows.\<close>

theorem check_vcf9_compat_unknown_iff_witness:
  "status (check_vcf9_compat ''PowerEdge R640'' []) = ''incompatible''
   \<and> status (check_vcf9_compat ''PowerEdge R640'' []) \<noteq> ''unknown''
   \<and> status (check_vcf9_compat [] []) = ''unknown''"
  using check_vcf9_compat_unknown_iff [of "''PowerEdge R640''" "[]"]
    check_vcf9_compat_unknown_iff [of "[]" "[]"]
  by (simp add: check_vcf9_compat_def)




lemma vcf9_label_example:
  "vcf9_label [''ESXi 9.0'', ''ESXi 8.0 U3''] = check_mark @ '' VCF 8.0 U3 + 9.0 Ready''"
  by (simp add: vcf9_label_def)

section \<open>Properties of the dictionaries of names\<close>


lemma dict_set_values: "snd ` set (dict_set k v d) \<subseteq> insert v (snd ` set d)"
  by (induction k v d rule: dict_set.induct) (auto split: if_splits)




lemma lower_index_values_from:
  "snd ` set (foldl (\<lambda>d c. dict_set (lower c) c d) d0 names) \<subseteq> snd ` set d0 \<union> set names"
proof (induction names arbitrary: d0)
  case Nil
  then show ?case by simp
next
  case (Cons c names)
  have "snd ` set (foldl (\<lambda>d c. dict_set (lower c) c d) (dict_set (lower c) c d0) names)
          \<subseteq> snd ` set (dict_set (lower c) c d0) \<union> set names"
    by (rule Cons.IH)
  also have "\<dots> \<subseteq> insert c (snd ` set d0) \<union> set names"
    using dict_set_values [of "lower c" c d0] by blast
  finally show ?case by auto
qed

lemma lower_index_value:
  assumes "map_of (lower_index names) k = Some n"
  shows "n \<in> set names"
proof -
  from assms have "(k, n) \<in> set (lower_index names)"
    by (rule map_of_SomeD)
  then have "n \<in> snd ` set (lower_index names)"
    by force
  with lower_index_values_from [of "[]" names] show ?thesis
    by (auto simp: lower_index_def)
qed

section \<open>Properties of the parsers\<close>












section \<open>Properties of the licensing calculator\<close>













text \<open>The example of the specification, and the same host under the other multiplier.\<close>

lemma license_host_example:
  "sockets h = 2 \<Longrightarrow> cores_per_socket h = 8 \<Longrightarrow>
   map (\<lambda>r. (foundation_cores r, entitled_tib r))
     (l_rows (calculate_licensing
        [\<lparr>site_name = nm, clusters = [(c, [h])], vcenter_version = v,
          total_hosts = 1, total_vms = 0\<rparr>] ''VCF'')) = [(32, 32)]
   \<and> map (\<lambda>r. (foundation_cores r, entitled_tib r))
     (l_rows (calculate_licensing
        [\<lparr>site_name = nm, clusters = [(c, [h])], vcenter_version = v,
          total_hosts = 1, total_vms = 0\<rparr>] ''VVF'')) = [(32, 8)]"
  by (simp add: calculate_licensing_def license_site_def license_host_def Let_def)

section \<open>Properties of the CSV formatters\<close>



















lemma those_rows_Some: "those_rows (map Some xs) = Some xs"
  by (induction xs) auto






text \<open>What the quoting does not protect: a double quote inside a value ends the field.\<close>

lemma embedded_quote_example:
  "read_quoted_row (join '','' (map quoted [[CHR ''a'', dquote, CHR '','', dquote, CHR ''b'']]))
     = Some [''a'', ''b'']"
  by (simp add: read_quoted_row_def quoted_def dquote_def)

section \<open>Properties of the host counts\<close>

















end
